theory Spec2Isabelle
  imports Complex_Main
begin

section \<open>Data model\<close>

text \<open>
  The Go sources of package \<open>plugin\<close> (validation, actual cost, recommendations) are
  embedded function by function. A Go \<open>map[string]string\<close> is a partial map; a map that
  may be \<open>nil\<close> and is tested for it is an option of a map. A pointer that may be \<open>nil\<close>
  is an option. A Go \<open>(value, error)\<close> result is a sum with the error on the left.
  A \<open>float64\<close> amount is a real number: the arithmetic of the source is read as exact
  arithmetic; rounding and the special values (infinities, not-a-number) are not
  modelled.
\<close>

type_synonym tags = "string \<rightharpoonup> string"

text \<open>Reading a Go map at a missing key gives the zero value, the empty string.\<close>

definition lookup_tag :: "tags \<Rightarrow> string \<Rightarrow> string" where
  "lookup_tag m k = (case m k of None \<Rightarrow> [] | Some v \<Rightarrow> v)"

text \<open>
  The loops \<open>for k, v := range m { switch k { case ...: default: out[k] = v } }\<close> copy
  every entry whose key is not listed into a fresh map. The result does not depend on
  the iteration order, since keys of a map are distinct.
\<close>

definition copy_tags_except :: "string list \<Rightarrow> tags \<Rightarrow> tags" where
  "copy_tags_except skip m = (\<lambda>k. if k \<in> set skip then None else m k)"

record ResourceDescriptor =
  Provider :: string
  ResourceType :: string
  Sku :: string
  Region :: string
  Tags :: tags

text \<open>\<open>google.protobuf.Timestamp\<close>; \<open>AsTime\<close> is the instant in nanoseconds since the epoch.\<close>

record timestamppb =
  Seconds :: int
  Nanos :: int

definition AsTime :: "timestamppb \<Rightarrow> int" where
  "AsTime t = Seconds t * 1000000000 + Nanos t"

record GetActualCostRequest =
  ResourceId :: string
  Arn :: string
  Start :: "timestamppb option"
  End :: "timestamppb option"
  ReqTags :: "tags option"

record ActualCostResult =
  Timestamp :: "timestamppb option"
  Cost :: real
  UsageAmount :: real
  UsageUnit :: string
  Source :: string

record GetActualCostResponse =
  Results :: "ActualCostResult list"

record GetProjectedCostResponse =
  CostPerMonth :: real
  UnitPrice :: real
  ProjCurrency :: string
  BillingDetail :: string

subsection \<open>Errors\<close>

datatype grpc_code = InvalidArgument | FailedPrecondition

datatype ErrorCode = ERROR_CODE_INVALID_RESOURCE | ERROR_CODE_UNSUPPORTED_REGION

text \<open>
  \<open>Errorf\<close> is an error made by \<open>fmt.Errorf\<close>; \<open>StatusErr\<close> one made by
  \<open>status.Error(code, msg)\<close>; \<open>StatusDetail\<close> a status that carries an \<open>ErrorDetail\<close>
  (error code and a details map, given as the literal of the source).
\<close>

datatype error =
  Errorf string
| StatusErr grpc_code string
| StatusDetail grpc_code string ErrorCode "(string \<times> string) list"

fun code_name :: "grpc_code \<Rightarrow> string" where
  "code_name InvalidArgument = ''InvalidArgument''"
| "code_name FailedPrecondition = ''FailedPrecondition''"

text \<open>The text of \<open>err.Error()\<close>; a gRPC status prints its code and its message.\<close>

fun Error :: "error \<Rightarrow> string" where
  "Error (Errorf m) = m"
| "Error (StatusErr c m) = ''rpc error: code = '' @ code_name c @ '' desc = '' @ m"
| "Error (StatusDetail c m ec ds) = ''rpc error: code = '' @ code_name c @ '' desc = '' @ m"

subsection \<open>The plugin and what it is given\<close>

text \<open>
  \<open>pricing.PricingClient\<close> is an interface whose implementation is not among the
  sources; the two getters the plugin code calls are fields here. Each returns the pair
  \<open>(rate, found)\<close> of the Go signature.
\<close>

record PricingClient =
  EC2OnDemandPricePerHour :: "string \<Rightarrow> string \<Rightarrow> string \<Rightarrow> real \<times> bool"
  EBSPricePerGBMonth :: "string \<Rightarrow> real \<times> bool"

record AWSPublicPlugin =
  region :: string
  pricing :: PricingClient

record ARNComponents =
  Partition :: string
  Service :: string
  ARNRegion :: string
  AccountID :: string
  ARNResourceType :: string
  ARNResourceID :: string

record ResourceRecommendationInfo =
  RecProvider :: string
  RecResourceType :: string
  RecRegion :: string
  RecSku :: string

record ModifyAction =
  ModificationType :: string
  CurrentConfig :: tags
  RecommendedConfig :: tags

record RecommendationImpact =
  EstimatedSavings :: real
  Currency :: string
  ProjectionPeriod :: string
  CurrentCost :: real
  ProjectedCost :: real
  SavingsPercentage :: real

datatype RecommendationCategory = RECOMMENDATION_CATEGORY_COST

datatype RecommendationActionType = RECOMMENDATION_ACTION_TYPE_MODIFY

datatype RecommendationPriority =
  RECOMMENDATION_PRIORITY_LOW | RECOMMENDATION_PRIORITY_MEDIUM

record Recommendation =
  RecId :: string
  Category :: RecommendationCategory
  ActionType :: RecommendationActionType
  Resource :: ResourceRecommendationInfo
  Modify :: ModifyAction
  Impact :: RecommendationImpact
  Priority :: RecommendationPriority
  ConfidenceScore :: real
  Description :: string
  Reasoning :: "string list"
  Metadata :: tags
  RecSource :: string

record RecommendationFilter =
  FilterResourceType :: string
  FilterRegion :: string
  FilterSku :: string
  FilterTags :: tags

record GetRecommendationsRequest =
  Filter :: "RecommendationFilter option"

record 's GetRecommendationsResponse =
  Recommendations :: "Recommendation list"
  Summary :: 's

text \<open>
  Functions the embedded code calls and whose bodies are not among the sources
  (other files of the package, the plugin SDK, the standard library). They are
  parameters of the model: every theorem below holds for all of them.
  \<^item> \<open>ParseARN\<close>, \<open>ToPulumiResourceType\<close>, \<open>extractAWSSKU\<close>: ARN parsing and tag helpers;
  \<^item> \<open>json_Unmarshal\<close>: \<open>json.Unmarshal\<close> into a fresh \<open>ResourceDescriptor\<close>;
  \<^item> \<open>sdk_ValidateActualCostRequest\<close>: \<open>pluginsdk.ValidateActualCostRequest\<close>;
  \<^item> \<open>newErrorWithID\<close>: the plugin's error constructor with trace id;
  \<^item> \<open>getProjectedForResource\<close>, \<open>formatActualBillingDetail\<close>: projected cost helpers;
  \<^item> \<open>parseInstanceType\<close>, \<open>detectService\<close>: instance-type and service helpers;
  \<^item> \<open>uuid_New\<close>: the value of the \<open>n\<close>-th call of \<open>uuid.New().String()\<close> in a request;
  \<^item> \<open>fmt_f0\<close>: the rendering of a \<open>float64\<close> by the verb \<open>%.0f\<close>;
  \<^item> \<open>CalculateRecommendationSummary\<close>: \<open>pluginsdk.CalculateRecommendationSummary\<close>,
    whose result type \<open>'s\<close> is left open.
\<close>

record 's externals =
  ParseARN :: "string \<Rightarrow> error + ARNComponents"
  ToPulumiResourceType :: "ARNComponents \<Rightarrow> string"
  extractAWSSKU :: "tags \<Rightarrow> string"
  json_Unmarshal :: "string \<Rightarrow> error + ResourceDescriptor"
  sdk_ValidateActualCostRequest :: "GetActualCostRequest \<Rightarrow> error option"
  newErrorWithID :: "string \<Rightarrow> grpc_code \<Rightarrow> string \<Rightarrow> ErrorCode \<Rightarrow> error"
  getProjectedForResource :: "ResourceDescriptor \<Rightarrow> error + GetProjectedCostResponse"
  formatActualBillingDetail :: "string \<Rightarrow> real \<Rightarrow> real \<Rightarrow> string"
  parseInstanceType :: "string \<Rightarrow> string \<times> string"
  detectService :: "string \<Rightarrow> string"
  uuid_New :: "nat \<Rightarrow> string"
  fmt_f0 :: "real \<Rightarrow> string"
  CalculateRecommendationSummary :: "Recommendation list \<Rightarrow> string \<Rightarrow> 's"

section \<open>Actual cost\<close>

text \<open>
  Modelled from the spec: the constant \<open>hoursPerMonth\<close> is declared in a file of the
  package that is not among the sources. The specification fixes the monthly-hours
  constant at 730.
\<close>

definition hoursPerMonth :: real where
  "hoursPerMonth = 730"

text \<open>
  Modelled from the spec: \<open>calculateRuntimeHours\<close> lives in \<open>actual.go\<close>, which is not
  among the sources. The specification says that the elapsed duration is computed in
  fractional hours, that a zero duration is a valid edge case and that an end before
  the start is an input error; the repository's research note on the fallback formula
  says the same (the hours of \<open>end - start\<close>, a negative duration rejected). Instants
  are in nanoseconds, an hour is \<open>3600 * 10^9\<close> of them. The text of the error is not
  specified, and the saturation of a Go \<open>Duration\<close> beyond some 292 years is left out.
\<close>

definition calculateRuntimeHours :: "int \<Rightarrow> int \<Rightarrow> error + real" where
  "calculateRuntimeHours from to =
     (if to < from then Inl (Errorf ''end time is before start time'')
      else Inr (real_of_int (to - from) / 3600000000000))"

text \<open>
  \<open>parseResourceFromRequest\<close>: the JSON form of \<open>ResourceId\<close> first, the tag map
  second. The receiver is not used by the body.
\<close>

definition parseResourceFromRequest ::
  "'s externals \<Rightarrow> GetActualCostRequest \<Rightarrow> error + ResourceDescriptor" where
  "parseResourceFromRequest h req =
     (let parsed = (if ResourceId req \<noteq> []
                    then (case json_Unmarshal h (ResourceId req) of
                            Inr resource \<Rightarrow> Some resource
                          | Inl err \<Rightarrow> None)
                    else None)
      in case parsed of
        Some resource \<Rightarrow> Inr resource
      | None \<Rightarrow>
         (case ReqTags req of
            None \<Rightarrow> Inl (StatusErr InvalidArgument
              ''missing resource information: provide ResourceId as JSON or use Tags'')
          | Some tags \<Rightarrow>
             (let resource = \<lparr> Provider = lookup_tag tags ''provider'',
                               ResourceType = lookup_tag tags ''resource_type'',
                               Sku = lookup_tag tags ''sku'',
                               Region = lookup_tag tags ''region'',
                               Tags = copy_tags_except
                                 [''provider'', ''resource_type'', ''sku'', ''region''] tags \<rparr>
              in if Provider resource = [] \<or> ResourceType resource = []
                    \<or> Sku resource = [] \<or> Region resource = []
                 then Inl (StatusErr InvalidArgument
                   ''resource information incomplete: need provider, resource_type, sku, region in ResourceId or Tags'')
                 else Inr resource)))"

text \<open>\<open>GetActualCost\<close>; a \<open>nil\<close> request is \<open>None\<close>.\<close>

definition GetActualCost ::
  "'s externals \<Rightarrow> AWSPublicPlugin \<Rightarrow> GetActualCostRequest option
     \<Rightarrow> error + GetActualCostResponse" where
  "GetActualCost h p r =
     (case r of
        None \<Rightarrow> Inl (StatusErr InvalidArgument ''missing request'')
      | Some req \<Rightarrow>
     (case Start req of
        None \<Rightarrow> Inl (StatusErr InvalidArgument ''missing Start timestamp'')
      | Some start \<Rightarrow>
     (case End req of
        None \<Rightarrow> Inl (StatusErr InvalidArgument ''missing End timestamp'')
      | Some end_ts \<Rightarrow>
     (case calculateRuntimeHours (AsTime start) (AsTime end_ts) of
        Inl err \<Rightarrow> Inl (StatusErr InvalidArgument (''invalid time range: '' @ Error err))
      | Inr runtimeHours \<Rightarrow>
     (case parseResourceFromRequest h req of
        Inl err \<Rightarrow> Inl err
      | Inr resource \<Rightarrow>
         if runtimeHours = 0
         then Inr \<lparr> Results = [\<lparr> Timestamp = Start req, Cost = 0, UsageAmount = 0,
                                 UsageUnit = [], Source = ''aws-public-fallback'' \<rparr>] \<rparr>
         else
           (case getProjectedForResource h resource of
              Inl err \<Rightarrow> Inl err
            | Inr projectedResp \<Rightarrow>
               (let actualCost = CostPerMonth projectedResp * (runtimeHours / hoursPerMonth)
                in Inr \<lparr> Results = [\<lparr> Timestamp = Start req, Cost = actualCost,
                     UsageAmount = runtimeHours, UsageUnit = ''hours'',
                     Source = formatActualBillingDetail h (BillingDetail projectedResp)
                                runtimeHours actualCost \<rparr>] \<rparr>)))))))"

section \<open>Request validation and resource resolution\<close>

text \<open>\<open>validateTimestamps\<close>: \<open>None\<close> is the \<open>nil\<close> error.\<close>

definition validateTimestamps :: "GetActualCostRequest \<Rightarrow> error option" where
  "validateTimestamps req =
     (case Start req of
        None \<Rightarrow> Some (StatusErr InvalidArgument ''start_time is required'')
      | Some start \<Rightarrow>
     (case End req of
        None \<Rightarrow> Some (StatusErr InvalidArgument ''end_time is required'')
      | Some end_ts \<Rightarrow>
         if \<not> (AsTime end_ts > AsTime start)
         then Some (StatusErr InvalidArgument ''end_time must be after start_time'')
         else None))"

text \<open>
  \<open>parseResourceFromARN\<close>: provider, region and resource type from the ARN, the SKU
  from the tags. Ranging over a \<open>nil\<close> map copies nothing. The receiver is not used.
\<close>

definition parseResourceFromARN ::
  "'s externals \<Rightarrow> GetActualCostRequest \<Rightarrow> error + ResourceDescriptor" where
  "parseResourceFromARN h req =
     (case ParseARN h (Arn req) of
        Inl err \<Rightarrow> Inl err
      | Inr arn \<Rightarrow>
         (let sku = (case ReqTags req of
                       None \<Rightarrow> []
                     | Some t \<Rightarrow>
                        (let s = lookup_tag t ''sku''
                         in if s = [] then extractAWSSKU h t else s))
          in if sku = []
             then Inl (Errorf
               ''ARN provided but tags missing 'sku' (instance type, volume type, etc.)'')
             else
               (let resourceType = ToPulumiResourceType h arn;
                    tags = copy_tags_except
                      [''sku'', ''instanceType'', ''instance_class'', ''type'',
                       ''volumeType'', ''volume_type'']
                      (case ReqTags req of None \<Rightarrow> Map.empty | Some t \<Rightarrow> t)
                in Inr \<lparr> Provider = ''aws'', ResourceType = resourceType, Sku = sku,
                         Region = ARNRegion arn, Tags = tags \<rparr>)))"

text \<open>
  \<open>RegionMismatchError\<close>. Attaching the detail to the status is taken to succeed, as the
  source expects; the plain status is its fallback.
\<close>

definition RegionMismatchError :: "AWSPublicPlugin \<Rightarrow> string \<Rightarrow> string \<Rightarrow> error" where
  "RegionMismatchError p traceID resourceRegion =
     StatusDetail FailedPrecondition ''region mismatch'' ERROR_CODE_UNSUPPORTED_REGION
       [(''trace_id'', traceID), (''plugin_region'', region p),
        (''resource_region'', resourceRegion), (''required_region'', region p)]"

text \<open>
  \<open>ValidateActualCostRequest\<close>. The context is represented by the trace id read from it;
  logging has no effect on the result.
\<close>

definition ValidateActualCostRequest ::
  "'s externals \<Rightarrow> AWSPublicPlugin \<Rightarrow> string \<Rightarrow> GetActualCostRequest option
     \<Rightarrow> error + ResourceDescriptor" where
  "ValidateActualCostRequest h p traceID r =
     (case r of
        None \<Rightarrow> Inl (newErrorWithID h traceID InvalidArgument ''request is required''
                      ERROR_CODE_INVALID_RESOURCE)
      | Some req \<Rightarrow>
     (case validateTimestamps req of
        Some err \<Rightarrow> Inl (newErrorWithID h traceID InvalidArgument (Error err)
                          ERROR_CODE_INVALID_RESOURCE)
      | None \<Rightarrow>
         if Arn req \<noteq> []
         then
           (case parseResourceFromARN h req of
              Inl err \<Rightarrow> Inl (newErrorWithID h traceID InvalidArgument (Error err)
                                ERROR_CODE_INVALID_RESOURCE)
            | Inr resource \<Rightarrow>
               if Region resource \<noteq> [] \<and> Region resource \<noteq> region p
               then Inl (RegionMismatchError p traceID (Region resource))
               else if Region resource = []
                    then Inr (resource \<lparr> Region := region p \<rparr>)
                    else Inr resource)
         else
           (case sdk_ValidateActualCostRequest h req of
              Some err \<Rightarrow> Inl (newErrorWithID h traceID InvalidArgument (Error err)
                                ERROR_CODE_INVALID_RESOURCE)
            | None \<Rightarrow>
               (case parseResourceFromRequest h req of
                  Inl err \<Rightarrow> Inl (newErrorWithID h traceID InvalidArgument (Error err)
                                    ERROR_CODE_INVALID_RESOURCE)
                | Inr resource \<Rightarrow>
                   if Region resource \<noteq> region p
                   then Inl (RegionMismatchError p traceID (Region resource))
                   else Inr resource))))"

section \<open>Recommendations\<close>

definition confidenceHigh :: real where
  "confidenceHigh = 0.9"

definition confidenceMedium :: real where
  "confidenceMedium = 0.7"

definition sourceAWSPublic :: string where
  "sourceAWSPublic = ''aws-public''"

definition modTypeGenUpgrade :: string where
  "modTypeGenUpgrade = ''generation_upgrade''"

definition modTypeGraviton :: string where
  "modTypeGraviton = ''graviton_migration''"

definition modTypeVolumeUpgrade :: string where
  "modTypeVolumeUpgrade = ''volume_type_upgrade''"

definition defaultEBSVolumeGB :: int where
  "defaultEBSVolumeGB = 100"

text \<open>
  Modelled from the spec: the two family tables are declared in a file of the package
  that is not among the sources. The specification calls them fixed mappings from an
  older family token to exactly one newer one; their entries are those listed in the
  repository's data model document for the recommendations feature.
\<close>

definition generationUpgradeMap :: tags where
  "generationUpgradeMap = map_of
     [(''t2'', ''t3''), (''t3'', ''t3a''),
      (''m4'', ''m5''), (''m5'', ''m6i''), (''m5a'', ''m6a''),
      (''c4'', ''c5''), (''c5'', ''c6i''), (''c5a'', ''c6a''),
      (''r4'', ''r5''), (''r5'', ''r6i''), (''r5a'', ''r6a''),
      (''i3'', ''i3en''), (''d2'', ''d3'')]"

definition gravitonMap :: tags where
  "gravitonMap = map_of
     [(''m5'', ''m6g''), (''m5a'', ''m6g''), (''m5n'', ''m6g''), (''m6i'', ''m6g''),
      (''m6a'', ''m6g''),
      (''c5'', ''c6g''), (''c5a'', ''c6g''), (''c5n'', ''c6gn''), (''c6i'', ''c6g''),
      (''c6a'', ''c6g''),
      (''r5'', ''r6g''), (''r5a'', ''r6g''), (''r5n'', ''r6g''), (''r6i'', ''r6g''),
      (''r6a'', ''r6g''),
      (''t3'', ''t4g''), (''t3a'', ''t4g'')]"

subsection \<open>Decimal integers of the standard library\<close>

text \<open>
  \<open>strconv.Atoi\<close>: an optional sign, then one or more ASCII digits, the value within the
  64-bit \<open>int\<close>; anything else is an error (\<open>None\<close>).
\<close>

fun parse_digits :: "nat \<Rightarrow> string \<Rightarrow> nat option" where
  "parse_digits n [] = Some n"
| "parse_digits n (c # cs) =
     (let d = (of_char c :: nat)
      in if 48 \<le> d \<and> d \<le> 57 then parse_digits (n * 10 + (d - 48)) cs else None)"

definition Atoi :: "string \<Rightarrow> int option" where
  "Atoi s =
     (let body = (if s \<noteq> [] \<and> (hd s = CHR ''-'' \<or> hd s = CHR ''+'') then tl s else s)
      in if body = [] then None
         else (case parse_digits 0 body of
                 None \<Rightarrow> None
               | Some n \<Rightarrow>
                  (let v = (if hd s = CHR ''-'' then - int n else int n)
                   in if v < - (2 ^ 63) \<or> 2 ^ 63 - 1 < v then None else Some v)))"

text \<open>\<open>strconv.Itoa\<close>: the decimal digits, most significant first, after a minus sign if any.\<close>

function format_nat :: "nat \<Rightarrow> string" where
  "format_nat n =
     (if n < 10 then [char_of (48 + n)]
      else format_nat (n div 10) @ [char_of (48 + n mod 10)])"
  by pat_completeness auto
termination
  by (relation "measure id") auto

definition Itoa :: "int \<Rightarrow> string" where
  "Itoa i = (if i < 0 then CHR ''-'' # format_nat (nat (- i)) else format_nat (nat i))"

subsection \<open>The three heuristics\<close>

text \<open>
  A \<open>nil\<close> recommendation is \<open>None\<close>. The argument \<open>n\<close> is the number of identifiers
  already drawn from \<open>uuid.New\<close> while the request is served.
\<close>

definition getGenerationUpgradeRecommendation ::
  "'s externals \<Rightarrow> AWSPublicPlugin \<Rightarrow> nat \<Rightarrow> string \<Rightarrow> string \<Rightarrow> Recommendation option" where
  "getGenerationUpgradeRecommendation h p n instanceType rgn =
     (case parseInstanceType h instanceType of (family, sz) \<Rightarrow>
      if family = [] then None
      else
     (case generationUpgradeMap family of
        None \<Rightarrow> None
      | Some newFamily \<Rightarrow>
     (let newType = newFamily @ ''.'' @ sz
      in case EC2OnDemandPricePerHour (pricing p) instanceType ''Linux'' ''Shared'' of
           (currentPrice, found) \<Rightarrow>
      if \<not> found then None
      else
     (case EC2OnDemandPricePerHour (pricing p) newType ''Linux'' ''Shared'' of
           (newPrice, found') \<Rightarrow>
      if \<not> found' \<or> newPrice > currentPrice then None
      else
     (let currentMonthly = currentPrice * hoursPerMonth;
          newMonthly = newPrice * hoursPerMonth;
          savings = currentMonthly - newMonthly;
          savingsPercent =
            (if currentMonthly > 0 then (savings / currentMonthly) * 100 else 0);
          confidence = confidenceHigh;
          reasoning =
            [''Newer '' @ newFamily @ '' instances offer better performance'',
             ''Drop-in replacement with no architecture changes required'']
            @ (case gravitonMap newFamily of
                 Some gravitonFamily \<Rightarrow>
                   [''Alternative: consider '' @ (gravitonFamily @ ''.'' @ sz)
                      @ '' for ARM compatibility (~20% additional savings)'']
               | None \<Rightarrow> [])
      in Some \<lparr>
           RecId = uuid_New h n,
           Category = RECOMMENDATION_CATEGORY_COST,
           ActionType = RECOMMENDATION_ACTION_TYPE_MODIFY,
           Resource = \<lparr> RecProvider = ''aws'', RecResourceType = ''ec2'',
                        RecRegion = rgn, RecSku = instanceType \<rparr>,
           Modify = \<lparr> ModificationType = modTypeGenUpgrade,
                      CurrentConfig = [''instance_type'' \<mapsto> instanceType],
                      RecommendedConfig = [''instance_type'' \<mapsto> newType] \<rparr>,
           Impact = \<lparr> EstimatedSavings = savings, Currency = ''USD'',
                      ProjectionPeriod = ''monthly'', CurrentCost = currentMonthly,
                      ProjectedCost = newMonthly, SavingsPercentage = savingsPercent \<rparr>,
           Priority = RECOMMENDATION_PRIORITY_MEDIUM,
           ConfidenceScore = confidence,
           Description = ''Upgrade from '' @ instanceType @ '' to '' @ newType
             @ '' for better performance at same or lower cost'',
           Reasoning = reasoning,
           Metadata = Map.empty,
           RecSource = sourceAWSPublic \<rparr>)))))"

definition getGravitonRecommendation ::
  "'s externals \<Rightarrow> AWSPublicPlugin \<Rightarrow> nat \<Rightarrow> string \<Rightarrow> string \<Rightarrow> Recommendation option" where
  "getGravitonRecommendation h p n instanceType rgn =
     (case parseInstanceType h instanceType of (family, sz) \<Rightarrow>
      if family = [] then None
      else
     (case gravitonMap family of
        None \<Rightarrow> None
      | Some gravitonFamily \<Rightarrow>
     (let gravitonType = gravitonFamily @ ''.'' @ sz
      in case EC2OnDemandPricePerHour (pricing p) instanceType ''Linux'' ''Shared'' of
           (currentPrice, found) \<Rightarrow>
      if \<not> found then None
      else
     (case EC2OnDemandPricePerHour (pricing p) gravitonType ''Linux'' ''Shared'' of
           (gravitonPrice, found') \<Rightarrow>
      if \<not> found' \<or> gravitonPrice > currentPrice then None
      else
     (let currentMonthly = currentPrice * hoursPerMonth;
          gravitonMonthly = gravitonPrice * hoursPerMonth;
          savings = currentMonthly - gravitonMonthly;
          savingsPercent =
            (if currentMonthly > 0 then (savings / currentMonthly) * 100 else 0);
          confidence = confidenceMedium
      in Some \<lparr>
           RecId = uuid_New h n,
           Category = RECOMMENDATION_CATEGORY_COST,
           ActionType = RECOMMENDATION_ACTION_TYPE_MODIFY,
           Resource = \<lparr> RecProvider = ''aws'', RecResourceType = ''ec2'',
                        RecRegion = rgn, RecSku = instanceType \<rparr>,
           Modify = \<lparr> ModificationType = modTypeGraviton,
                      CurrentConfig = [''instance_type'' \<mapsto> instanceType,
                                       ''architecture'' \<mapsto> ''x86_64''],
                      RecommendedConfig = [''instance_type'' \<mapsto> gravitonType,
                                           ''architecture'' \<mapsto> ''arm64''] \<rparr>,
           Impact = \<lparr> EstimatedSavings = savings, Currency = ''USD'',
                      ProjectionPeriod = ''monthly'', CurrentCost = currentMonthly,
                      ProjectedCost = gravitonMonthly,
                      SavingsPercentage = savingsPercent \<rparr>,
           Priority = RECOMMENDATION_PRIORITY_LOW,
           ConfidenceScore = confidence,
           Description = ''Migrate from '' @ instanceType @ '' to '' @ gravitonType
             @ '' (Graviton) for ~'' @ fmt_f0 h savingsPercent @ ''% cost savings'',
           Reasoning =
             [''Graviton instances are typically ~20% cheaper with comparable performance'',
              ''Requires validation that application supports ARM architecture''],
           Metadata = [''architecture_change'' \<mapsto> ''x86_64 -> arm64'',
                       ''requires_validation'' \<mapsto>
                         ''Application must support ARM architecture''],
           RecSource = sourceAWSPublic \<rparr>)))))"

text \<open>\<open>generateEC2Recommendations\<close>: up to two recommendations, in this order.\<close>

definition generateEC2Recommendations ::
  "'s externals \<Rightarrow> AWSPublicPlugin \<Rightarrow> string \<Rightarrow> string \<Rightarrow> Recommendation list" where
  "generateEC2Recommendations h p instanceType rgn =
     (let recommendations =
            (case getGenerationUpgradeRecommendation h p 0 instanceType rgn of
               Some rec \<Rightarrow> [rec]
             | None \<Rightarrow> [])
      in case getGravitonRecommendation h p (length recommendations) instanceType rgn of
           Some rec \<Rightarrow> recommendations @ [rec]
         | None \<Rightarrow> recommendations)"

text \<open>
  \<open>getEBSRecommendations\<close>: the gp2 to gp3 upgrade; \<open>nil\<close> is the empty list. The
  size is read from the tag \<open>size\<close> when that key is present, otherwise from
  \<open>volume_size\<close>, and falls back to the default when it does not parse or is not positive.
\<close>

definition getEBSRecommendations ::
  "'s externals \<Rightarrow> AWSPublicPlugin \<Rightarrow> nat \<Rightarrow> string \<Rightarrow> string \<Rightarrow> tags
     \<Rightarrow> Recommendation list" where
  "getEBSRecommendations h p n volumeType rgn tags =
     (if volumeType \<noteq> ''gp2'' then []
      else
     (let sizeGB =
            (case tags ''size'' of
               Some sizeStr \<Rightarrow>
                 (case Atoi sizeStr of
                    Some parsed \<Rightarrow> if parsed > 0 then parsed else defaultEBSVolumeGB
                  | None \<Rightarrow> defaultEBSVolumeGB)
             | None \<Rightarrow>
                 (case tags ''volume_size'' of
                    Some sizeStr \<Rightarrow>
                      (case Atoi sizeStr of
                         Some parsed \<Rightarrow> if parsed > 0 then parsed else defaultEBSVolumeGB
                       | None \<Rightarrow> defaultEBSVolumeGB)
                  | None \<Rightarrow> defaultEBSVolumeGB))
      in case EBSPricePerGBMonth (pricing p) ''gp2'' of (gp2Price, found) \<Rightarrow>
      if \<not> found then []
      else
     (case EBSPricePerGBMonth (pricing p) ''gp3'' of (gp3Price, found') \<Rightarrow>
      if \<not> found' \<or> gp3Price > gp2Price then []
      else
     (let currentMonthly = gp2Price * real_of_int sizeGB;
          gp3Monthly = gp3Price * real_of_int sizeGB;
          savings = currentMonthly - gp3Monthly;
          savingsPercent =
            (if currentMonthly > 0 then (savings / currentMonthly) * 100 else 0);
          confidence = confidenceHigh
      in [\<lparr>
           RecId = uuid_New h n,
           Category = RECOMMENDATION_CATEGORY_COST,
           ActionType = RECOMMENDATION_ACTION_TYPE_MODIFY,
           Resource = \<lparr> RecProvider = ''aws'', RecResourceType = ''ebs'',
                        RecRegion = rgn, RecSku = volumeType \<rparr>,
           Modify = \<lparr> ModificationType = modTypeVolumeUpgrade,
                      CurrentConfig = [''volume_type'' \<mapsto> ''gp2'',
                                       ''size_gb'' \<mapsto> Itoa sizeGB],
                      RecommendedConfig = [''volume_type'' \<mapsto> ''gp3'',
                                           ''size_gb'' \<mapsto> Itoa sizeGB] \<rparr>,
           Impact = \<lparr> EstimatedSavings = savings, Currency = ''USD'',
                      ProjectionPeriod = ''monthly'', CurrentCost = currentMonthly,
                      ProjectedCost = gp3Monthly, SavingsPercentage = savingsPercent \<rparr>,
           Priority = RECOMMENDATION_PRIORITY_MEDIUM,
           ConfidenceScore = confidence,
           Description = ''Upgrade '' @ Itoa sizeGB @ ''GB gp2 volume to gp3 for ~''
             @ fmt_f0 h savingsPercent @ ''% cost savings'',
           Reasoning =
             [''gp3 volumes are ~20% cheaper than gp2'',
              ''gp3 provides better baseline performance (3000 IOPS, 125 MB/s)'',
              ''API-compatible change with no data migration required''],
           Metadata = [''baseline_iops'' \<mapsto>
                         ''gp2: 100 IOPS/GB, gp3: 3000 IOPS (included)'',
                       ''baseline_throughput'' \<mapsto>
                         ''gp2: 128-250 MB/s, gp3: 125 MB/s (included)''],
           RecSource = sourceAWSPublic \<rparr>]))))"

text \<open>
  \<open>GetRecommendations\<close>; a \<open>nil\<close> request and a \<open>nil\<close> filter are \<open>None\<close>. The context
  is represented by its trace id; the log entry and the clock have no effect on the
  result.
\<close>

definition GetRecommendations ::
  "'s externals \<Rightarrow> AWSPublicPlugin \<Rightarrow> string \<Rightarrow> GetRecommendationsRequest option
     \<Rightarrow> error + 's GetRecommendationsResponse" where
  "GetRecommendations h p traceID r =
     (case r of
        None \<Rightarrow> Inl (newErrorWithID h traceID InvalidArgument ''missing request''
                      ERROR_CODE_INVALID_RESOURCE)
      | Some req \<Rightarrow>
         (let recommendations =
                (case Filter req of
                   None \<Rightarrow> []
                 | Some f \<Rightarrow>
                    if FilterSku f \<noteq> []
                    then
                      (let resourceType = FilterResourceType f;
                           rgn = (if FilterRegion f = [] then region p else FilterRegion f);
                           service = detectService h resourceType
                       in if service = ''ec2''
                          then generateEC2Recommendations h p (FilterSku f) rgn
                          else if service = ''ebs''
                          then getEBSRecommendations h p 0 (FilterSku f) rgn (FilterTags f)
                          else [])
                    else [])
          in Inr \<lparr> Recommendations = recommendations,
                   Summary = CalculateRecommendationSummary h recommendations ''monthly'' \<rparr>))"

section \<open>A concrete environment\<close>

text \<open>
  Closed instances of the theorems need values for the parameters. The ones below follow
  what the repository's tests and documents record: the ARN test table (an S3 bucket ARN
  has empty region and account, the bucket name is its resource type; a service maps to
  the resource type of the same name, except that an \<open>ec2\<close> volume is \<open>ebs\<close>), an
  instance priced at 0.0104 per hour costing 7.592 per month, and \<open>json.Unmarshal\<close>
  decoding a JSON object into a descriptor in which every field the object does not
  mention keeps its zero value.
\<close>

definition example_ParseARN :: "string \<Rightarrow> error + ARNComponents" where
  "example_ParseARN s =
     (if s = ''arn:aws:s3:::my-bucket''
      then Inr \<lparr> Partition = ''aws'', Service = ''s3'', ARNRegion = [], AccountID = [],
                 ARNResourceType = ''my-bucket'', ARNResourceID = [] \<rparr>
      else if s = ''arn:aws:ec2:us-east-1:123456789012:instance/i-abc123''
      then Inr \<lparr> Partition = ''aws'', Service = ''ec2'', ARNRegion = ''us-east-1'',
                 AccountID = ''123456789012'', ARNResourceType = ''instance'',
                 ARNResourceID = ''i-abc123'' \<rparr>
      else Inl (Errorf ''invalid ARN format''))"

definition example_ToPulumiResourceType :: "ARNComponents \<Rightarrow> string" where
  "example_ToPulumiResourceType arn =
     (if Service arn = ''ec2'' \<and> ARNResourceType arn = ''volume'' then ''ebs''
      else Service arn)"

definition example_json_Unmarshal :: "string \<Rightarrow> error + ResourceDescriptor" where
  "example_json_Unmarshal s =
     (if s = ''{}''
      then Inr \<lparr> Provider = [], ResourceType = [], Sku = [], Region = [],
                 Tags = Map.empty \<rparr>
      else if s = ''{\"provider\":\"aws\",\"resource_type\":\"ec2\",\"sku\":\"t3.micro\",\"region\":\"us-east-1\"}''
      then Inr \<lparr> Provider = ''aws'', ResourceType = ''ec2'', Sku = ''t3.micro'',
                 Region = ''us-east-1'', Tags = Map.empty \<rparr>
      else if s = ''{\"region\":\"us-east-1\"}''
      then Inr \<lparr> Provider = [], ResourceType = [], Sku = [], Region = ''us-east-1'',
                 Tags = Map.empty \<rparr>
      else Inl (Errorf ''invalid character''))"

definition example_getProjectedForResource ::
  "ResourceDescriptor \<Rightarrow> error + GetProjectedCostResponse" where
  "example_getProjectedForResource r =
     (if ResourceType r = ''ec2'' \<and> Sku r = ''t3.micro''
      then Inr \<lparr> CostPerMonth = 7.592, UnitPrice = 0.0104, ProjCurrency = ''USD'',
                 BillingDetail = ''On-demand Linux, Shared'' \<rparr>
      else Inl (StatusErr InvalidArgument ''unsupported resource''))"

definition example_parseInstanceType :: "string \<Rightarrow> string \<times> string" where
  "example_parseInstanceType s =
     (if CHR ''.'' \<in> set s
      then (takeWhile (\<lambda>c. c \<noteq> CHR ''.'') s, tl (dropWhile (\<lambda>c. c \<noteq> CHR ''.'') s))
      else ([], []))"

definition example_externals :: "nat externals" where
  "example_externals =
     \<lparr> ParseARN = example_ParseARN,
       ToPulumiResourceType = example_ToPulumiResourceType,
       extractAWSSKU = (\<lambda>t. lookup_tag t ''instanceType''),
       json_Unmarshal = example_json_Unmarshal,
       sdk_ValidateActualCostRequest = (\<lambda>req. None),
       newErrorWithID = (\<lambda>traceID c msg ec. StatusDetail c msg ec [(''trace_id'', traceID)]),
       getProjectedForResource = example_getProjectedForResource,
       formatActualBillingDetail = (\<lambda>detail hours cost. ''Fallback estimate: '' @ detail),
       parseInstanceType = example_parseInstanceType,
       detectService = (\<lambda>resourceType. resourceType),
       uuid_New = (\<lambda>n. ''id-'' @ Itoa (int n)),
       fmt_f0 = (\<lambda>x. Itoa \<lfloor>x + 1 / 2\<rfloor>),
       CalculateRecommendationSummary = (\<lambda>recs period. length recs) \<rparr>"

definition example_pricing :: PricingClient where
  "example_pricing =
     \<lparr> EC2OnDemandPricePerHour = (\<lambda>instanceType os tenancy.
         if os = ''Linux'' \<and> tenancy = ''Shared''
         then (if instanceType = ''t2.micro'' then (0.0116, True)
               else if instanceType = ''t3.micro'' then (0.0104, True)
               else if instanceType = ''m5.large'' then (0.096, True)
               else if instanceType = ''m6g.large'' then (0.077, True)
               else (0, False))
         else (0, False)),
       EBSPricePerGBMonth = (\<lambda>volumeType.
         if volumeType = ''gp2'' then (0.10, True)
         else if volumeType = ''gp3'' then (0.08, True)
         else (0, False)) \<rparr>"

definition example_plugin :: AWSPublicPlugin where
  "example_plugin = \<lparr> region = ''us-east-1'', pricing = example_pricing \<rparr>"

definition example_window_start :: timestamppb where
  "example_window_start = \<lparr> Seconds = 1700000000, Nanos = 0 \<rparr>"

definition example_window_end :: timestamppb where
  "example_window_end = \<lparr> Seconds = 1700086400, Nanos = 0 \<rparr>"

definition example_day_request :: GetActualCostRequest where
  "example_day_request =
     \<lparr> ResourceId = ''{\"provider\":\"aws\",\"resource_type\":\"ec2\",\"sku\":\"t3.micro\",\"region\":\"us-east-1\"}'',
       Arn = [],
       Start = Some example_window_start,
       End = Some example_window_end,
       ReqTags = None \<rparr>"

definition example_t3_micro :: ResourceDescriptor where
  "example_t3_micro =
     \<lparr> Provider = ''aws'', ResourceType = ''ec2'', Sku = ''t3.micro'',
       Region = ''us-east-1'', Tags = Map.empty \<rparr>"

definition example_zero_request :: GetActualCostRequest where
  "example_zero_request = example_day_request \<lparr> End := Some example_window_start \<rparr>"

definition example_bucket_request :: "tags option \<Rightarrow> GetActualCostRequest" where
  "example_bucket_request t =
     \<lparr> ResourceId = [], Arn = ''arn:aws:s3:::my-bucket'',
       Start = Some example_window_start, End = Some example_window_end,
       ReqTags = t \<rparr>"

definition example_bucket_tags :: tags where
  "example_bucket_tags = [''sku'' \<mapsto> ''STANDARD'', ''type'' \<mapsto> ''bucket'', ''env'' \<mapsto> ''prod'']"

definition example_flat_tags :: tags where
  "example_flat_tags =
     [''provider'' \<mapsto> ''aws'', ''resource_type'' \<mapsto> ''ec2'', ''sku'' \<mapsto> ''t3.micro'',
      ''region'' \<mapsto> ''us-east-1'', ''env'' \<mapsto> ''prod'']"

definition example_flat_request :: GetActualCostRequest where
  "example_flat_request =
     \<lparr> ResourceId = [], Arn = [],
       Start = Some example_window_start, End = Some example_window_end,
       ReqTags = Some example_flat_tags \<rparr>"

definition example_json_request :: "string \<Rightarrow> GetActualCostRequest" where
  "example_json_request js =
     \<lparr> ResourceId = js, Arn = [],
       Start = Some example_window_start, End = Some example_window_end,
       ReqTags = None \<rparr>"

definition example_free_plugin :: AWSPublicPlugin where
  "example_free_plugin =
     \<lparr> region = ''us-east-1'',
       pricing = \<lparr> EC2OnDemandPricePerHour = (\<lambda>instanceType os tenancy. (0, False)),
                   EBSPricePerGBMonth = (\<lambda>volumeType. (0, True)) \<rparr> \<rparr>"

section \<open>Theorems\<close>

lemmas example_defs =
  example_externals_def example_plugin_def example_pricing_def example_ParseARN_def
  example_ToPulumiResourceType_def example_json_Unmarshal_def
  example_getProjectedForResource_def example_parseInstanceType_def
  example_window_start_def example_window_end_def example_t3_micro_def
  example_day_request_def example_zero_request_def example_bucket_request_def
  example_bucket_tags_def example_flat_tags_def example_flat_request_def
  example_json_request_def example_free_plugin_def

subsection \<open>Actual cost over a time window\<close>

text \<open>
  Claim C1. When both instants are present, the end is strictly after the start, the
  resource resolves to a descriptor and that descriptor is priceable, \<open>GetActualCost\<close>
  succeeds with a single result whose cost is the projected monthly cost times the
  elapsed hours over 730.
\<close>

theorem GetActualCost_prorated:
  assumes "Start req = Some s" and "End req = Some e" and "AsTime s < AsTime e"
    and "parseResourceFromRequest h req = Inr resource"
    and "getProjectedForResource h resource = Inr proj"
  shows "\<exists>res. GetActualCost h p (Some req) = Inr \<lparr> Results = [res] \<rparr>
           \<and> Cost res = CostPerMonth proj
                 * ((real_of_int (AsTime e - AsTime s) / 3600000000000) / 730)"
  using assms
  by (simp add: GetActualCost_def calculateRuntimeHours_def hoursPerMonth_def Let_def)

text \<open>A window of 24 hours on an instance that costs 7.592 per month.\<close>

theorem GetActualCost_prorated_witness:
  "Start example_day_request = Some example_window_start
   \<and> End example_day_request = Some example_window_end
   \<and> AsTime example_window_start < AsTime example_window_end
   \<and> parseResourceFromRequest example_externals example_day_request = Inr example_t3_micro
   \<and> getProjectedForResource example_externals example_t3_micro
       = Inr \<lparr> CostPerMonth = 7.592, UnitPrice = 0.0104, ProjCurrency = ''USD'',
               BillingDetail = ''On-demand Linux, Shared'' \<rparr>
   \<and> (\<exists>res. GetActualCost example_externals example_plugin (Some example_day_request)
                = Inr \<lparr> Results = [res] \<rparr>
              \<and> Cost res = 7.592 * (24 / 730))"
  using GetActualCost_prorated [of example_day_request example_window_start
      example_window_end example_externals example_t3_micro
      "\<lparr> CostPerMonth = 7.592, UnitPrice = 0.0104, ProjCurrency = ''USD'',
         BillingDetail = ''On-demand Linux, Shared'' \<rparr>" example_plugin]
  by (simp add: example_defs AsTime_def parseResourceFromRequest_def)

text \<open>
  Claim C2. When the end instant equals the start instant and the resource resolves,
  \<open>GetActualCost\<close> succeeds and its single result has cost 0; the request is not
  rejected. The descriptor need not be priceable: the projected cost is not consulted.
\<close>

theorem GetActualCost_zero_duration:
  assumes "Start req = Some s" and "End req = Some e" and "AsTime e = AsTime s"
    and "parseResourceFromRequest h req = Inr resource"
  shows "GetActualCost h p (Some req) =
           Inr \<lparr> Results = [\<lparr> Timestamp = Some s, Cost = 0, UsageAmount = 0,
                                 UsageUnit = [], Source = ''aws-public-fallback'' \<rparr>] \<rparr>"
  using assms by (simp add: GetActualCost_def calculateRuntimeHours_def)

theorem GetActualCost_zero_duration_witness:
  "Start example_zero_request = Some example_window_start
   \<and> End example_zero_request = Some example_window_start
   \<and> parseResourceFromRequest example_externals example_zero_request = Inr example_t3_micro
   \<and> GetActualCost example_externals example_plugin (Some example_zero_request) =
           Inr \<lparr> Results = [\<lparr> Timestamp = Some example_window_start, Cost = 0,
                                 UsageAmount = 0, UsageUnit = [],
                                 Source = ''aws-public-fallback'' \<rparr>] \<rparr>"
  using GetActualCost_zero_duration [of example_zero_request example_window_start
      example_window_start example_externals example_t3_micro example_plugin]
  by (simp add: example_defs parseResourceFromRequest_def)

text \<open>
  \<open>GetActualCost\<close> as it stands in the sources makes its own checks and does not call
  \<open>ValidateActualCostRequest\<close>. That validator is stricter on the same window: its
  \<open>validateTimestamps\<close> refuses an end that is not after the start, the equal case
  included.
\<close>

lemma validateTimestamps_zero_duration:
  assumes "Start req = Some s" and "End req = Some e" and "AsTime e = AsTime s"
  shows "validateTimestamps req
           = Some (StatusErr InvalidArgument ''end_time must be after start_time'')"
  using assms by (simp add: validateTimestamps_def)

subsection \<open>Resolution from an ARN\<close>

text \<open>
  Claim C5. When a request supplies an ARN that parses and its tags yield no SKU (there
  are no tags, or the tag \<open>sku\<close> is absent or empty and the tag helper finds none
  either), \<open>parseResourceFromARN\<close> fails with the error that names the missing \<open>sku\<close>,
  whatever the ARN says. \<open>ValidateActualCostRequest\<close> fails on such a request too, and
  once the timestamps are accepted its error is that message as an invalid argument.
\<close>

theorem ARN_without_sku_is_rejected:
  assumes "Arn req \<noteq> []" and "ParseARN h (Arn req) = Inr arn"
    and "ReqTags req = None
         \<or> (\<exists>t. ReqTags req = Some t \<and> lookup_tag t ''sku'' = [] \<and> extractAWSSKU h t = [])"
  shows "parseResourceFromARN h req =
           Inl (Errorf ''ARN provided but tags missing 'sku' (instance type, volume type, etc.)'')
         \<and> isl (ValidateActualCostRequest h p traceID (Some req))
         \<and> (validateTimestamps req = None \<longrightarrow>
              ValidateActualCostRequest h p traceID (Some req) =
                Inl (newErrorWithID h traceID InvalidArgument
                  ''ARN provided but tags missing 'sku' (instance type, volume type, etc.)''
                  ERROR_CODE_INVALID_RESOURCE))"
proof -
  have parse: "parseResourceFromARN h req =
      Inl (Errorf ''ARN provided but tags missing 'sku' (instance type, volume type, etc.)'')"
    using assms by (auto simp: parseResourceFromARN_def Let_def)
  with assms(1) show ?thesis
    by (cases "validateTimestamps req") (simp_all add: ValidateActualCostRequest_def)
qed

theorem ARN_without_sku_is_rejected_witness:
  "Arn (example_bucket_request None) \<noteq> []
   \<and> ParseARN example_externals (Arn (example_bucket_request None))
     = Inr \<lparr> Partition = ''aws'', Service = ''s3'', ARNRegion = [], AccountID = [],
             ARNResourceType = ''my-bucket'', ARNResourceID = [] \<rparr>
   \<and> ReqTags (example_bucket_request None) = None
   \<and> validateTimestamps (example_bucket_request None) = None
   \<and> parseResourceFromARN example_externals (example_bucket_request None) =
       Inl (Errorf ''ARN provided but tags missing 'sku' (instance type, volume type, etc.)'')
   \<and> ValidateActualCostRequest example_externals example_plugin ''trace-1''
         (Some (example_bucket_request None)) =
       Inl (StatusDetail InvalidArgument
         ''ARN provided but tags missing 'sku' (instance type, volume type, etc.)''
         ERROR_CODE_INVALID_RESOURCE [(''trace_id'', ''trace-1'')])"
  using ARN_without_sku_is_rejected [of "example_bucket_request None" example_externals
      "\<lparr> Partition = ''aws'', Service = ''s3'', ARNRegion = [], AccountID = [],
         ARNResourceType = ''my-bucket'', ARNResourceID = [] \<rparr>"
      example_plugin "''trace-1''"]
  by (simp add: example_defs validateTimestamps_def AsTime_def)

text \<open>
  When \<open>parseResourceFromARN\<close> succeeds, the SKU of its descriptor is the one read
  from the tags; no part of the ARN enters it.
\<close>

lemma parseResourceFromARN_sku_from_tags:
  assumes "parseResourceFromARN h req = Inr d"
  shows "\<exists>t. ReqTags req = Some t
           \<and> Sku d = (if lookup_tag t ''sku'' = [] then extractAWSSKU h t
                       else lookup_tag t ''sku'')"
proof (cases "ParseARN h (Arn req)")
  case (Inl e)
  with assms show ?thesis by (simp add: parseResourceFromARN_def)
next
  case (Inr arn)
  show ?thesis
  proof (cases "ReqTags req")
    case None
    with assms Inr show ?thesis by (simp add: parseResourceFromARN_def)
  next
    case (Some t)
    with assms Inr show ?thesis
      by (cases "lookup_tag t ''sku'' = []"; cases "extractAWSSKU h t = []")
         (auto simp: parseResourceFromARN_def Let_def)
  qed
qed

text \<open>
  Claim C6, as stated, asks that resolution succeed for every request whose ARN parses
  with an empty region. An S3 bucket ARN with accepted timestamps and tags that carry no
  SKU is such a request, and it is refused for the missing SKU.
\<close>

theorem empty_region_without_sku_counterexample:
  "validateTimestamps (example_bucket_request (Some [''env'' \<mapsto> ''prod''])) = None
   \<and> ParseARN example_externals (Arn (example_bucket_request (Some [''env'' \<mapsto> ''prod''])))
       = Inr \<lparr> Partition = ''aws'', Service = ''s3'', ARNRegion = [], AccountID = [],
               ARNResourceType = ''my-bucket'', ARNResourceID = [] \<rparr>
   \<and> ValidateActualCostRequest example_externals example_plugin ''trace-1''
         (Some (example_bucket_request (Some [''env'' \<mapsto> ''prod'']))) =
       Inl (StatusDetail InvalidArgument
         ''ARN provided but tags missing 'sku' (instance type, volume type, etc.)''
         ERROR_CODE_INVALID_RESOURCE [(''trace_id'', ''trace-1'')])"
  by (simp add: example_defs ValidateActualCostRequest_def parseResourceFromARN_def
      validateTimestamps_def AsTime_def lookup_tag_def)

text \<open>
  Claim C6, amended. When the timestamps are accepted, the ARN parses with an empty
  region and the tags yield a SKU, \<open>ValidateActualCostRequest\<close> succeeds and the region
  of the descriptor is the region of the plugin. The empty region is never the cause of
  a failure.
\<close>

theorem empty_ARN_region_defaults:
  assumes "validateTimestamps req = None" and "Arn req \<noteq> []"
    and "ParseARN h (Arn req) = Inr arn" and "ARNRegion arn = []"
    and "ReqTags req = Some t"
    and "lookup_tag t ''sku'' \<noteq> [] \<or> extractAWSSKU h t \<noteq> []"
  shows "\<exists>d. ValidateActualCostRequest h p traceID (Some req) = Inr d
           \<and> Region d = region p
           \<and> Provider d = ''aws''
           \<and> ResourceType d = ToPulumiResourceType h arn
           \<and> Sku d = (if lookup_tag t ''sku'' = [] then extractAWSSKU h t
                       else lookup_tag t ''sku'')"
  using assms
  by (auto simp: ValidateActualCostRequest_def parseResourceFromARN_def Let_def)

theorem empty_ARN_region_defaults_witness:
  "validateTimestamps (example_bucket_request (Some example_bucket_tags)) = None
   \<and> ParseARN example_externals (Arn (example_bucket_request (Some example_bucket_tags)))
       = Inr \<lparr> Partition = ''aws'', Service = ''s3'', ARNRegion = [], AccountID = [],
               ARNResourceType = ''my-bucket'', ARNResourceID = [] \<rparr>
   \<and> lookup_tag example_bucket_tags ''sku'' = ''STANDARD''
   \<and> (\<exists>d. ValidateActualCostRequest example_externals example_plugin ''trace-1''
              (Some (example_bucket_request (Some example_bucket_tags))) = Inr d
           \<and> Region d = ''us-east-1'' \<and> Provider d = ''aws'' \<and> ResourceType d = ''s3''
           \<and> Sku d = ''STANDARD'')"
  using empty_ARN_region_defaults [of "example_bucket_request (Some example_bucket_tags)"
      example_externals
      "\<lparr> Partition = ''aws'', Service = ''s3'', ARNRegion = [], AccountID = [],
         ARNResourceType = ''my-bucket'', ARNResourceID = [] \<rparr>"
      example_bucket_tags example_plugin "''trace-1''"]
  by (simp add: example_defs validateTimestamps_def AsTime_def lookup_tag_def)

text \<open>
  Claim C10. A descriptor made by \<open>parseResourceFromARN\<close> has none of the keys \<open>sku\<close>,
  \<open>instanceType\<close>, \<open>instance_class\<close>, \<open>type\<close>, \<open>volumeType\<close>, \<open>volume_type\<close> in its
  tags; a descriptor made by \<open>parseResourceFromRequest\<close> from the tag map (the JSON form
  absent or not decodable) has none of \<open>provider\<close>, \<open>resource_type\<close>, \<open>sku\<close>, \<open>region\<close>.
  At every other key the descriptor's tags agree with the tags of the request.
\<close>

theorem identity_keys_are_stripped:
  "(parseResourceFromARN h req = Inr d \<longrightarrow>
      (\<forall>k. Tags d k =
         (if k \<in> {''sku'', ''instanceType'', ''instance_class'', ''type'',
                   ''volumeType'', ''volume_type''}
          then None
          else (case ReqTags req of None \<Rightarrow> None | Some t \<Rightarrow> t k))))
   \<and> ((ResourceId req = [] \<or> isl (json_Unmarshal h (ResourceId req)))
        \<and> parseResourceFromRequest h req = Inr d' \<longrightarrow>
      (\<exists>t. ReqTags req = Some t
         \<and> (\<forall>k. Tags d' k =
               (if k \<in> {''provider'', ''resource_type'', ''sku'', ''region''}
                then None else t k))))"
proof (intro conjI impI)
  assume "parseResourceFromARN h req = Inr d"
  then have "Tags d = copy_tags_except
      [''sku'', ''instanceType'', ''instance_class'', ''type'', ''volumeType'', ''volume_type'']
      (case ReqTags req of None \<Rightarrow> Map.empty | Some t \<Rightarrow> t)"
    by (auto simp: parseResourceFromARN_def Let_def split: sum.splits if_splits)
  then show "\<forall>k. Tags d k =
         (if k \<in> {''sku'', ''instanceType'', ''instance_class'', ''type'',
                   ''volumeType'', ''volume_type''}
          then None
          else (case ReqTags req of None \<Rightarrow> None | Some t \<Rightarrow> t k))"
    by (simp add: copy_tags_except_def split: option.splits)
next
  assume a: "(ResourceId req = [] \<or> isl (json_Unmarshal h (ResourceId req)))
        \<and> parseResourceFromRequest h req = Inr d'"
  then obtain t where t: "ReqTags req = Some t"
    and "Tags d' = copy_tags_except [''provider'', ''resource_type'', ''sku'', ''region''] t"
    by (auto simp: parseResourceFromRequest_def Let_def isl_def
        split: sum.splits option.splits if_splits)
  then show "\<exists>t. ReqTags req = Some t
         \<and> (\<forall>k. Tags d' k =
               (if k \<in> {''provider'', ''resource_type'', ''sku'', ''region''}
                then None else t k))"
    by (simp add: copy_tags_except_def)
qed

theorem identity_keys_are_stripped_witness:
  "(\<exists>d. parseResourceFromARN example_externals
            (example_bucket_request (Some example_bucket_tags)) = Inr d
       \<and> Tags d ''sku'' = None \<and> Tags d ''type'' = None
       \<and> Tags d ''env'' = Some ''prod'')
   \<and> ResourceId example_flat_request = []
   \<and> (\<exists>d. parseResourceFromRequest example_externals example_flat_request = Inr d
       \<and> Tags d ''provider'' = None \<and> Tags d ''resource_type'' = None
       \<and> Tags d ''sku'' = None \<and> Tags d ''region'' = None
       \<and> Tags d ''env'' = Some ''prod'')"
proof -
  obtain d1 where d1: "parseResourceFromARN example_externals
      (example_bucket_request (Some example_bucket_tags)) = Inr d1"
    by (simp add: parseResourceFromARN_def example_defs lookup_tag_def Let_def)
  obtain d2 where d2: "parseResourceFromRequest example_externals example_flat_request = Inr d2"
    by (simp add: parseResourceFromRequest_def example_defs lookup_tag_def Let_def)
  have e: "ResourceId example_flat_request = []"
    by (simp add: example_defs)
  from identity_keys_are_stripped [of example_externals
      "example_bucket_request (Some example_bucket_tags)" d1] d1
  have k1: "Tags d1 ''sku'' = None \<and> Tags d1 ''type'' = None \<and> Tags d1 ''env'' = Some ''prod''"
    by (simp add: example_defs)
  from identity_keys_are_stripped [of example_externals example_flat_request _ d2] d2 e
  have k2: "Tags d2 ''provider'' = None \<and> Tags d2 ''resource_type'' = None
       \<and> Tags d2 ''sku'' = None \<and> Tags d2 ''region'' = None
       \<and> Tags d2 ''env'' = Some ''prod''"
    by (auto simp: example_defs)
  from d1 d2 e k1 k2 show ?thesis by blast
qed

subsection \<open>Completeness of resolved descriptors\<close>

text \<open>
  The tag-map path of \<open>parseResourceFromRequest\<close> checks the four identifying fields:
  what it returns has all of them non-empty.
\<close>

lemma parseResourceFromRequest_tags_complete:
  assumes "ResourceId req = [] \<or> json_Unmarshal h (ResourceId req) = Inl err"
    and "parseResourceFromRequest h req = Inr d"
  shows "Provider d \<noteq> [] \<and> ResourceType d \<noteq> [] \<and> Sku d \<noteq> [] \<and> Region d \<noteq> []"
  using assms
  by (auto simp: parseResourceFromRequest_def Let_def split: option.splits if_splits)

text \<open>
  The JSON path returns whatever \<open>json.Unmarshal\<close> decoded, before that check is reached.
\<close>

lemma parseResourceFromRequest_json:
  assumes "ResourceId req \<noteq> []" and "json_Unmarshal h (ResourceId req) = Inr d"
  shows "parseResourceFromRequest h req = Inr d"
  using assms by (simp add: parseResourceFromRequest_def)

text \<open>
  Claim C4 fails on the JSON path. The JSON object \<open>{}\<close> resolves to a descriptor whose
  four identifying fields are all empty, and an object that gives the plugin's region
  only passes \<open>ValidateActualCostRequest\<close> as well, with provider, resource type and
  SKU empty; neither request is refused as incomplete.
\<close>

theorem json_descriptor_is_not_checked:
  "parseResourceFromRequest example_externals (example_json_request ''{}'')
     = Inr \<lparr> Provider = [], ResourceType = [], Sku = [], Region = [], Tags = Map.empty \<rparr>
   \<and> parseResourceFromRequest example_externals
         (example_json_request ''{\"region\":\"us-east-1\"}'')
     = Inr \<lparr> Provider = [], ResourceType = [], Sku = [], Region = ''us-east-1'',
             Tags = Map.empty \<rparr>
   \<and> ValidateActualCostRequest example_externals example_plugin ''trace-1''
         (Some (example_json_request ''{\"region\":\"us-east-1\"}''))
     = Inr \<lparr> Provider = [], ResourceType = [], Sku = [], Region = ''us-east-1'',
             Tags = Map.empty \<rparr>"
  by (simp add: example_defs parseResourceFromRequest_def ValidateActualCostRequest_def
      validateTimestamps_def AsTime_def)

subsection \<open>Recommendations\<close>

text \<open>
  Claim C7. For a request that is not \<open>nil\<close> and whose filter is absent or has an empty
  SKU, \<open>GetRecommendations\<close> succeeds with no recommendation and the summary of the
  empty list.
\<close>

theorem GetRecommendations_no_filter:
  assumes "Filter req = None \<or> (\<exists>f. Filter req = Some f \<and> FilterSku f = [])"
  shows "GetRecommendations h p traceID (Some req) =
           Inr \<lparr> Recommendations = [],
                 Summary = CalculateRecommendationSummary h [] ''monthly'' \<rparr>"
  using assms by (auto simp: GetRecommendations_def)

theorem GetRecommendations_no_filter_witness:
  "GetRecommendations example_externals example_plugin ''trace-1'' (Some \<lparr> Filter = None \<rparr>)
     = Inr \<lparr> Recommendations = [], Summary = 0 \<rparr>
   \<and> GetRecommendations example_externals example_plugin ''trace-1''
       (Some \<lparr> Filter = Some \<lparr> FilterResourceType = ''ec2'', FilterRegion = ''us-east-1'',
                               FilterSku = [], FilterTags = Map.empty \<rparr> \<rparr>)
     = Inr \<lparr> Recommendations = [], Summary = 0 \<rparr>"
  using GetRecommendations_no_filter [of "\<lparr> Filter = None \<rparr>" example_externals
      example_plugin "''trace-1''"]
    GetRecommendations_no_filter [of
      "\<lparr> Filter = Some \<lparr> FilterResourceType = ''ec2'', FilterRegion = ''us-east-1'',
                           FilterSku = [], FilterTags = Map.empty \<rparr> \<rparr>" example_externals
      example_plugin "''trace-1''"]
  by (simp add: example_defs)

text \<open>What each heuristic has established when it emits a recommendation.\<close>

lemma getGenerationUpgradeRecommendation_Some:
  assumes "getGenerationUpgradeRecommendation h p n instanceType rgn = Some r"
  shows "\<exists>newFamily cur new.
      generationUpgradeMap (fst (parseInstanceType h instanceType)) = Some newFamily
    \<and> EC2OnDemandPricePerHour (pricing p) instanceType ''Linux'' ''Shared'' = (cur, True)
    \<and> EC2OnDemandPricePerHour (pricing p)
          (newFamily @ ''.'' @ snd (parseInstanceType h instanceType)) ''Linux'' ''Shared''
        = (new, True)
    \<and> new \<le> cur
    \<and> Resource r = \<lparr> RecProvider = ''aws'', RecResourceType = ''ec2'',
                        RecRegion = rgn, RecSku = instanceType \<rparr>
    \<and> RecommendedConfig (Modify r)
        = [''instance_type'' \<mapsto> newFamily @ ''.'' @ snd (parseInstanceType h instanceType)]
    \<and> Impact r = \<lparr> EstimatedSavings = cur * hoursPerMonth - new * hoursPerMonth,
           Currency = ''USD'', ProjectionPeriod = ''monthly'',
           CurrentCost = cur * hoursPerMonth, ProjectedCost = new * hoursPerMonth,
           SavingsPercentage =
             (if cur * hoursPerMonth > 0
              then ((cur * hoursPerMonth - new * hoursPerMonth) / (cur * hoursPerMonth)) * 100
              else 0) \<rparr>"
  using assms unfolding getGenerationUpgradeRecommendation_def Let_def
  by (auto split: prod.splits option.splits if_splits)

lemma getGravitonRecommendation_Some:
  assumes "getGravitonRecommendation h p n instanceType rgn = Some r"
  shows "\<exists>gravitonFamily cur new.
      gravitonMap (fst (parseInstanceType h instanceType)) = Some gravitonFamily
    \<and> EC2OnDemandPricePerHour (pricing p) instanceType ''Linux'' ''Shared'' = (cur, True)
    \<and> EC2OnDemandPricePerHour (pricing p)
          (gravitonFamily @ ''.'' @ snd (parseInstanceType h instanceType)) ''Linux'' ''Shared''
        = (new, True)
    \<and> new \<le> cur
    \<and> Resource r = \<lparr> RecProvider = ''aws'', RecResourceType = ''ec2'',
                        RecRegion = rgn, RecSku = instanceType \<rparr>
    \<and> RecommendedConfig (Modify r)
        = [''instance_type'' \<mapsto> gravitonFamily @ ''.'' @ snd (parseInstanceType h instanceType),
           ''architecture'' \<mapsto> ''arm64'']
    \<and> Impact r = \<lparr> EstimatedSavings = cur * hoursPerMonth - new * hoursPerMonth,
           Currency = ''USD'', ProjectionPeriod = ''monthly'',
           CurrentCost = cur * hoursPerMonth, ProjectedCost = new * hoursPerMonth,
           SavingsPercentage =
             (if cur * hoursPerMonth > 0
              then ((cur * hoursPerMonth - new * hoursPerMonth) / (cur * hoursPerMonth)) * 100
              else 0) \<rparr>"
  using assms unfolding getGravitonRecommendation_def Let_def
  by (auto split: prod.splits option.splits if_splits)

lemma getEBSRecommendations_member:
  assumes "r \<in> set (getEBSRecommendations h p n volumeType rgn tags)"
  shows "volumeType = ''gp2''
    \<and> snd (EBSPricePerGBMonth (pricing p) ''gp2'')
    \<and> snd (EBSPricePerGBMonth (pricing p) ''gp3'')
    \<and> fst (EBSPricePerGBMonth (pricing p) ''gp3'') \<le> fst (EBSPricePerGBMonth (pricing p) ''gp2'')
    \<and> Resource r = \<lparr> RecProvider = ''aws'', RecResourceType = ''ebs'',
                        RecRegion = rgn, RecSku = volumeType \<rparr>
    \<and> RecommendedConfig (Modify r) ''volume_type'' = Some ''gp3''
    \<and> EstimatedSavings (Impact r) = CurrentCost (Impact r) - ProjectedCost (Impact r)
    \<and> SavingsPercentage (Impact r) =
         (if CurrentCost (Impact r) > 0
          then (EstimatedSavings (Impact r) / CurrentCost (Impact r)) * 100 else 0)"
  using assms unfolding getEBSRecommendations_def Let_def
  by (auto split: prod.splits option.splits if_splits)

text \<open>
  Claim C3. Whenever the generation upgrade or the Graviton migration emits a
  recommendation, the rate of the current instance type and the rate of the recommended
  instance type were both found and the recommended rate is at most the current one;
  whenever the volume upgrade emits one, the current SKU is gp2, the rates of gp2 and gp3
  were found and the gp3 rate is at most the gp2 rate. So no alternative that is
  strictly more expensive, or whose rate is missing, is ever suggested.
\<close>

theorem recommended_rate_not_above_current:
  "(getGenerationUpgradeRecommendation h p n sku rgn = Some r
      \<or> getGravitonRecommendation h p n sku rgn = Some r \<longrightarrow>
      (\<exists>newType. RecommendedConfig (Modify r) ''instance_type'' = Some newType
         \<and> snd (EC2OnDemandPricePerHour (pricing p) sku ''Linux'' ''Shared'')
         \<and> snd (EC2OnDemandPricePerHour (pricing p) newType ''Linux'' ''Shared'')
         \<and> fst (EC2OnDemandPricePerHour (pricing p) newType ''Linux'' ''Shared'')
             \<le> fst (EC2OnDemandPricePerHour (pricing p) sku ''Linux'' ''Shared'')))
   \<and> (r \<in> set (getEBSRecommendations h p n sku rgn tags) \<longrightarrow>
        sku = ''gp2''
        \<and> RecommendedConfig (Modify r) ''volume_type'' = Some ''gp3''
        \<and> snd (EBSPricePerGBMonth (pricing p) ''gp2'')
        \<and> snd (EBSPricePerGBMonth (pricing p) ''gp3'')
        \<and> fst (EBSPricePerGBMonth (pricing p) ''gp3'')
            \<le> fst (EBSPricePerGBMonth (pricing p) ''gp2''))"
proof -
  have ec2: "\<exists>newType. RecommendedConfig (Modify r) ''instance_type'' = Some newType
         \<and> snd (EC2OnDemandPricePerHour (pricing p) sku ''Linux'' ''Shared'')
         \<and> snd (EC2OnDemandPricePerHour (pricing p) newType ''Linux'' ''Shared'')
         \<and> fst (EC2OnDemandPricePerHour (pricing p) newType ''Linux'' ''Shared'')
             \<le> fst (EC2OnDemandPricePerHour (pricing p) sku ''Linux'' ''Shared'')"
    if "getGenerationUpgradeRecommendation h p n sku rgn = Some r
      \<or> getGravitonRecommendation h p n sku rgn = Some r"
    using that
  proof
    assume "getGenerationUpgradeRecommendation h p n sku rgn = Some r"
    from getGenerationUpgradeRecommendation_Some [OF this] show ?thesis
      by auto
  next
    assume "getGravitonRecommendation h p n sku rgn = Some r"
    from getGravitonRecommendation_Some [OF this] show ?thesis
      by auto
  qed
  have ebs: "sku = ''gp2''
        \<and> RecommendedConfig (Modify r) ''volume_type'' = Some ''gp3''
        \<and> snd (EBSPricePerGBMonth (pricing p) ''gp2'')
        \<and> snd (EBSPricePerGBMonth (pricing p) ''gp3'')
        \<and> fst (EBSPricePerGBMonth (pricing p) ''gp3'')
            \<le> fst (EBSPricePerGBMonth (pricing p) ''gp2'')"
    if "r \<in> set (getEBSRecommendations h p n sku rgn tags)"
    using getEBSRecommendations_member [OF that] by simp
  from ec2 ebs show ?thesis by blast
qed

theorem recommended_rate_not_above_current_witness:
  "(\<exists>r newType. getGenerationUpgradeRecommendation example_externals example_plugin 0
           ''t2.micro'' ''us-east-1'' = Some r
        \<and> RecommendedConfig (Modify r) ''instance_type'' = Some newType
        \<and> snd (EC2OnDemandPricePerHour (pricing example_plugin) newType ''Linux'' ''Shared'')
        \<and> fst (EC2OnDemandPricePerHour (pricing example_plugin) newType ''Linux'' ''Shared'')
            \<le> 0.0116)
   \<and> (\<exists>r newType. getGravitonRecommendation example_externals example_plugin 0
           ''m5.large'' ''us-east-1'' = Some r
        \<and> RecommendedConfig (Modify r) ''instance_type'' = Some newType
        \<and> snd (EC2OnDemandPricePerHour (pricing example_plugin) newType ''Linux'' ''Shared'')
        \<and> fst (EC2OnDemandPricePerHour (pricing example_plugin) newType ''Linux'' ''Shared'')
            \<le> 0.096)
   \<and> (\<exists>r. r \<in> set (getEBSRecommendations example_externals example_plugin 0
                       ''gp2'' ''us-east-1'' Map.empty)
        \<and> RecommendedConfig (Modify r) ''volume_type'' = Some ''gp3''
        \<and> snd (EBSPricePerGBMonth (pricing example_plugin) ''gp3'')
        \<and> fst (EBSPricePerGBMonth (pricing example_plugin) ''gp3'') \<le> 0.10)"
proof -
  obtain r1 where r1: "getGenerationUpgradeRecommendation example_externals example_plugin 0
      ''t2.micro'' ''us-east-1'' = Some r1"
    by (simp add: getGenerationUpgradeRecommendation_def generationUpgradeMap_def
        example_defs Let_def)
  obtain r2 where r2: "getGravitonRecommendation example_externals example_plugin 0
      ''m5.large'' ''us-east-1'' = Some r2"
    by (simp add: getGravitonRecommendation_def gravitonMap_def example_defs Let_def)
  obtain r3 where r3: "r3 \<in> set (getEBSRecommendations example_externals example_plugin 0
      ''gp2'' ''us-east-1'' Map.empty)"
    by (simp add: getEBSRecommendations_def example_defs Let_def)
  have prices:
    "fst (EC2OnDemandPricePerHour (pricing example_plugin) ''t2.micro'' ''Linux'' ''Shared'')
       = 0.0116"
    "fst (EC2OnDemandPricePerHour (pricing example_plugin) ''m5.large'' ''Linux'' ''Shared'')
       = 0.096"
    "fst (EBSPricePerGBMonth (pricing example_plugin) ''gp2'') = 0.10"
    by (simp_all add: example_defs)
  from recommended_rate_not_above_current [of example_externals example_plugin 0
      "''t2.micro''" "''us-east-1''" r1] r1 prices
  have c1: "\<exists>newType. RecommendedConfig (Modify r1) ''instance_type'' = Some newType
        \<and> snd (EC2OnDemandPricePerHour (pricing example_plugin) newType ''Linux'' ''Shared'')
        \<and> fst (EC2OnDemandPricePerHour (pricing example_plugin) newType ''Linux'' ''Shared'')
            \<le> 0.0116"
    by auto
  from recommended_rate_not_above_current [of example_externals example_plugin 0
      "''m5.large''" "''us-east-1''" r2] r2 prices
  have c2: "\<exists>newType. RecommendedConfig (Modify r2) ''instance_type'' = Some newType
        \<and> snd (EC2OnDemandPricePerHour (pricing example_plugin) newType ''Linux'' ''Shared'')
        \<and> fst (EC2OnDemandPricePerHour (pricing example_plugin) newType ''Linux'' ''Shared'')
            \<le> 0.096"
    by auto
  from recommended_rate_not_above_current [of example_externals example_plugin 0
      "''gp2''" "''us-east-1''" r3 Map.empty] r3 prices
  have c3: "RecommendedConfig (Modify r3) ''volume_type'' = Some ''gp3''
        \<and> snd (EBSPricePerGBMonth (pricing example_plugin) ''gp3'')
        \<and> fst (EBSPricePerGBMonth (pricing example_plugin) ''gp3'') \<le> 0.10"
    by auto
  from r1 r2 r3 c1 c2 c3 show ?thesis by blast
qed

text \<open>
  Claim C8. In every recommendation emitted by one of the three heuristics the savings
  percentage is the savings over the current monthly cost, times 100, when that cost is
  strictly positive, and 0 otherwise; in particular it is 0 when the cost is 0. The
  quotient is formed under the guard only.
\<close>

theorem savings_percentage_guarded:
  assumes "getGenerationUpgradeRecommendation h p n sku rgn = Some r
      \<or> getGravitonRecommendation h p n sku rgn = Some r
      \<or> r \<in> set (getEBSRecommendations h p n sku rgn tags)"
  shows "SavingsPercentage (Impact r) =
           (if CurrentCost (Impact r) > 0
            then (EstimatedSavings (Impact r) / CurrentCost (Impact r)) * 100 else 0)
         \<and> (CurrentCost (Impact r) = 0 \<longrightarrow> SavingsPercentage (Impact r) = 0)"
proof -
  have "SavingsPercentage (Impact r) =
           (if CurrentCost (Impact r) > 0
            then (EstimatedSavings (Impact r) / CurrentCost (Impact r)) * 100 else 0)"
    using assms
  proof (elim disjE)
    assume "getGenerationUpgradeRecommendation h p n sku rgn = Some r"
    from getGenerationUpgradeRecommendation_Some [OF this] show ?thesis
      by auto
  next
    assume "getGravitonRecommendation h p n sku rgn = Some r"
    from getGravitonRecommendation_Some [OF this] show ?thesis
      by auto
  next
    assume "r \<in> set (getEBSRecommendations h p n sku rgn tags)"
    from getEBSRecommendations_member [OF this] show ?thesis
      by simp
  qed
  then show ?thesis by simp
qed

theorem savings_percentage_guarded_witness:
  "(\<exists>r. r \<in> set (getEBSRecommendations example_externals example_plugin 0
                      ''gp2'' ''us-east-1'' [''size'' \<mapsto> ''500''])
       \<and> CurrentCost (Impact r) = 50 \<and> EstimatedSavings (Impact r) = 10
       \<and> SavingsPercentage (Impact r) = 20)
   \<and> (\<exists>r. r \<in> set (getEBSRecommendations example_externals example_free_plugin 0
                      ''gp2'' ''us-east-1'' Map.empty)
       \<and> CurrentCost (Impact r) = 0 \<and> SavingsPercentage (Impact r) = 0)"
proof -
  obtain r1 where r1: "r1 \<in> set (getEBSRecommendations example_externals example_plugin 0
      ''gp2'' ''us-east-1'' [''size'' \<mapsto> ''500''])"
    and i1: "CurrentCost (Impact r1) = 50" "EstimatedSavings (Impact r1) = 10"
    by (simp add: getEBSRecommendations_def example_defs Let_def Atoi_def)
  obtain r2 where r2: "r2 \<in> set (getEBSRecommendations example_externals example_free_plugin 0
      ''gp2'' ''us-east-1'' Map.empty)"
    and i2: "CurrentCost (Impact r2) = 0"
    by (simp add: getEBSRecommendations_def example_defs Let_def)
  from savings_percentage_guarded [of example_externals example_plugin 0 "''gp2''"
      "''us-east-1''" r1 "[''size'' \<mapsto> ''500'']"] r1 i1
  have p1: "SavingsPercentage (Impact r1) = 20" by simp
  from savings_percentage_guarded [of example_externals example_free_plugin 0 "''gp2''"
      "''us-east-1''" r2 Map.empty] r2 i2
  have p2: "SavingsPercentage (Impact r2) = 0" by simp
  from r1 i1 p1 r2 i2 p2 show ?thesis by blast
qed


end
